theory Spec2Isabelle
  imports Complex_Main "HOL-Library.Word" "HOL-Library.Sublist"
begin

section \<open>Data model\<close>

text \<open>
  Values of Python's \<open>bytes\<close> are lists of octets. A Python \<open>str\<close> that names a file is
  modelled as the bytes the operating system receives for it (its UTF-8 encoding), so
  that the length of a string is the length of the file name. Page coordinates are Python
  floats that the manager only stores, compares and passes on (it does no arithmetic on
  them); they are modelled as reals.
\<close>

type_synonym bytes = "8 word list"

type_synonym rect = "real \<times> real \<times> real \<times> real"

text \<open>
  The exceptions that leave the manager. \<open>FileNotFoundError\<close> and \<open>ValueError\<close> carry the
  message of the \<open>raise\<close> statement. \<open>OSError\<close> is raised by the operating system's
  \<open>stat\<close> for a file name that is too long, and by PIL when the pixel data of an opened
  image cannot be loaded. \<open>UnidentifiedImageError\<close> is what \<open>PIL.Image.open\<close> raises for
  bytes it cannot identify. \<open>AttributeError\<close> carries the name of an attribute that the
  module \<open>fitz\<close> does not have. \<open>FitzError\<close> stands for any exception raised inside the
  PDF engine.
\<close>

datatype error =
    FileNotFoundError string
  | ValueError string
  | OSError
  | UnidentifiedImageError
  | AttributeError string
  | FitzError

text \<open>The error kinds of the specification, as the exceptions the code raises for them.\<close>

definition NotFoundError :: error where
  "NotFoundError = FileNotFoundError ''Document not found''"

definition InvalidPageError :: error where
  "InvalidPageError = ValueError ''Invalid page number''"

definition ImageIndexNotFoundError :: error where
  "ImageIndexNotFoundError = ValueError ''Image index not found on page''"

text \<open>
  The manager has no exception of its own for bytes that do not decode: it lets the
  exception of PIL through, which is \<open>UnidentifiedImageError\<close> when \<open>Image.open\<close> rejects
  the bytes and \<open>OSError\<close> when the pixel data fail to load afterwards.
\<close>

definition DecodeError :: "error \<Rightarrow> bool" where
  "DecodeError err = (err = UnidentifiedImageError \<or> err = OSError)"

text \<open>The dataclass \<open>PageImage\<close>.\<close>

record PageImage =
  index :: int
  bbox :: rect
  width :: int
  height :: int
  xref :: int
  preview_base64 :: string
  extension :: string

subsection \<open>Paths (pathlib on POSIX)\<close>

text \<open>
  A \<open>pathlib\<close> path is its anchor (\<open>''''\<close> for a relative path, \<open>''/''\<close> or \<open>''//''\<close>) and its
  list of components. Two paths are equal when both agree. Parsing a string splits it at
  \<open>/\<close> and drops empty components and \<open>.\<close> components; \<open>..\<close> is kept.
\<close>

record posix_path =
  anchor :: string
  parts :: "string list"

fun split_sep :: "string \<Rightarrow> string list" where
  "split_sep [] = [[]]"
| "split_sep (c # cs) =
     (if c = CHR ''/'' then [] # split_sep cs
      else (case split_sep cs of
              [] \<Rightarrow> [[c]]
            | w # ws \<Rightarrow> (c # w) # ws))"

definition rel_parts :: "string \<Rightarrow> string list" where
  "rel_parts s = filter (\<lambda>x. x \<noteq> [] \<and> x \<noteq> ''.'') (split_sep s)"

definition splitroot :: "string \<Rightarrow> string \<times> string" where
  "splitroot p =
     (if take 1 p \<noteq> ''/'' then ('''', p)
      else if take 1 (drop 1 p) \<noteq> ''/'' \<or> take 1 (drop 2 p) = ''/'' then (''/'', drop 1 p)
      else (''//'', drop 2 p))"

definition parse_path :: "string \<Rightarrow> posix_path" where
  "parse_path s = (case splitroot s of (r, rel) \<Rightarrow> \<lparr>anchor = r, parts = rel_parts rel\<rparr>)"

text \<open>
  The operator \<open>/\<close> of \<open>pathlib\<close>: an argument that starts with \<open>/\<close> replaces the left
  operand, any other argument is appended to it.
\<close>

definition truediv :: "posix_path \<Rightarrow> string \<Rightarrow> posix_path" where
  "truediv p s =
     (if take 1 s = ''/'' then parse_path s
      else \<lparr>anchor = anchor p, parts = parts p @ rel_parts s\<rparr>)"

text \<open>\<open>str(path)\<close>, the string that is handed to the operating system.\<close>

fun join_sep :: "string list \<Rightarrow> string" where
  "join_sep [] = []"
| "join_sep [x] = x"
| "join_sep (x # y # ys) = x @ ''/'' @ join_sep (y # ys)"

definition fspath :: "posix_path \<Rightarrow> string" where
  "fspath p = (if anchor p = [] \<and> parts p = [] then ''.'' else anchor p @ join_sep (parts p))"

subsection \<open>The file system (Linux, as seen through pathlib of Python 3.11)\<close>

text \<open>
  The file system gives what is found at the end of each path, as the path is written: a
  regular file with its content, a directory, or nothing. Symbolic links and permissions
  are not modelled.
\<close>

datatype node = File bytes | Directory

type_synonym filesystem = "posix_path \<Rightarrow> node option"

text \<open>
  The limits of the operating system: a component of a path has at most \<open>NAME_MAX\<close>
  bytes, and a path handed to a system call has fewer than \<open>PATH_MAX\<close> bytes.
\<close>

definition NAME_MAX :: nat where
  "NAME_MAX = 255"

definition PATH_MAX :: nat where
  "PATH_MAX = 4096"

text \<open>
  The walk of the kernel along the components of a path, from the directory \<open>cur\<close> under
  the anchor: it stops with \<open>ENOENT\<close> or \<open>ENOTDIR\<close> where it does not stand in a directory
  (the anchor itself always is one), \<open>..\<close> leads to the parent, and looking up a component
  of more than \<open>NAME_MAX\<close> bytes in a directory fails with \<open>ENAMETOOLONG\<close>. The function
  tells whether the walk ends with \<open>ENAMETOOLONG\<close>.
\<close>

fun name_too_long :: "filesystem \<Rightarrow> string \<Rightarrow> string list \<Rightarrow> string list \<Rightarrow> bool" where
  "name_too_long fs a cur [] = False"
| "name_too_long fs a cur (c # cs) =
     (if cur \<noteq> [] \<and> fs \<lparr>anchor = a, parts = cur\<rparr> \<noteq> Some Directory then False
      else if c = ''..'' then name_too_long fs a (butlast cur) cs
      else if NAME_MAX < length c then True
      else name_too_long fs a (cur @ [c]) cs)"

text \<open>
  \<open>Path.exists()\<close>: it calls \<open>stat\<close> and answers false for \<open>ENOENT\<close> and \<open>ENOTDIR\<close> and for
  the \<open>ValueError\<close> that Python raises for a path with an embedded null byte; every other
  \<open>OSError\<close>, here \<open>ENAMETOOLONG\<close>, is raised. Whatever is found at the path, a file or a
  directory, exists.
\<close>

definition path_exists :: "filesystem \<Rightarrow> posix_path \<Rightarrow> error + bool" where
  "path_exists fs p =
     (if fs p \<noteq> None then Inr True
      else if CHR 0x00 \<in> set (fspath p) then Inr False
      else if PATH_MAX \<le> length (fspath p) then Inl OSError
      else if name_too_long fs (anchor p) [] (parts p) then Inl OSError
      else Inr False)"

text \<open>The content that is read when a path is opened, if a regular file is found there.\<close>

definition read_bytes :: "filesystem \<Rightarrow> posix_path \<Rightarrow> bytes option" where
  "read_bytes fs p = (case fs p of Some (File content) \<Rightarrow> Some content | _ \<Rightarrow> None)"

subsection \<open>The PDF engine and the raster decoder\<close>

text \<open>
  What \<open>doc.extract_image(xref)\<close> gives: it raises \<open>RuntimeError\<close>, or returns something
  that is not a dict, or a dict of which the manager reads the keys
  \<open>image\<close>, \<open>width\<close>, \<open>height\<close> and \<open>ext\<close>, each of which may be missing.
\<close>

record image_dict =
  d_image :: "bytes option"
  d_width :: "int option"
  d_height :: "int option"
  d_ext :: "string option"

datatype extract_result = RuntimeError | NotADict | Dict image_dict

text \<open>
  A loaded page: the width and height of \<open>page.rect\<close>, the first field (the xref) of each
  entry of \<open>page.get_images(full=True)\<close> in the engine's order, and
  \<open>page.get_image_rects(xref)\<close>.
\<close>

record pdf_page =
  rect_width :: real
  rect_height :: real
  get_images :: "int list"
  get_image_rects :: "int \<Rightarrow> rect list"

record pdf_doc =
  pages :: "pdf_page list"
  xref_is_image :: "int \<Rightarrow> bool"
  extract_image :: "int \<Rightarrow> extract_result"

definition page_count :: "pdf_doc \<Rightarrow> int" where
  "page_count doc = int (length (pages doc))"

text \<open>
  An image that \<open>PIL.Image.open\<close> returned: its mode and size, which are read from the
  header, and its pixel data, which PIL loads only when they are first needed. \<open>pil_data\<close>
  is what \<open>tobytes()\<close> returns, or \<open>None\<close> when loading the pixel data raises \<open>OSError\<close>
  (a truncated or broken file).
\<close>

record pil_image =
  pil_mode :: string
  pil_width :: int
  pil_height :: int
  pil_data :: "bytes option"

text \<open>
  The colourspaces that the module \<open>fitz\<close> predefines, with the number of components of
  each, and the lookup of a colourspace attribute by name: \<open>fitz.csRGB\<close>, \<open>fitz.csGRAY\<close> and
  \<open>fitz.csCMYK\<close> exist, any other name raises \<open>AttributeError\<close>.
\<close>

datatype colorspace = csRGB | csGRAY | csCMYK

fun colorspace_n :: "colorspace \<Rightarrow> nat" where
  "colorspace_n csRGB = 3"
| "colorspace_n csGRAY = 1"
| "colorspace_n csCMYK = 4"

definition fitz_colorspace :: "string \<Rightarrow> error + colorspace" where
  "fitz_colorspace name =
     (if name = ''csRGB'' then Inr csRGB
      else if name = ''csGRAY'' then Inr csGRAY
      else if name = ''csCMYK'' then Inr csCMYK
      else Inl (AttributeError name))"

record pixmap =
  pix_colorspace :: colorspace
  pix_width :: int
  pix_height :: int
  pix_samples :: bytes
  pix_alpha :: bool

text \<open>
  The constructor \<open>fitz.Pixmap(colorspace, width, height, samples)\<close>, whose fifth argument
  \<open>alpha\<close> defaults to false: the pixmap holds what it was given, and the constructor
  raises (bad samples length) unless there are width times height times components
  samples.
\<close>

definition Pixmap :: "colorspace \<Rightarrow> int \<Rightarrow> int \<Rightarrow> bytes \<Rightarrow> error + pixmap" where
  "Pixmap cs w h samples =
     (if int (colorspace_n cs) * w * h = int (length samples)
      then Inr \<lparr>pix_colorspace = cs, pix_width = w, pix_height = h, pix_samples = samples,
                pix_alpha = False\<rparr>
      else Inl FitzError)"

text \<open>
  The rest of the libraries the manager drives are parameters of the model:
  \<^item> \<open>fitz_open\<close>: the document the engine reads from a byte stream, \<open>None\<close> when
    \<open>fitz.open\<close> raises;
  \<^item> \<open>image_open\<close>: \<open>PIL.Image.open\<close>, \<open>None\<close> when it raises;
  \<^item> \<open>convert_samples\<close>: the samples of a loaded image converted to another mode;
  \<^item> \<open>replace_image\<close>: the update section that the engine has pending after
    \<open>page.replace_image(xref, pixmap=pix)\<close> on the page with the given zero-based
    number of the document read from the given bytes, \<open>None\<close> when the engine raises;
  \<^item> \<open>b64encode\<close>: \<open>base64.b64encode\<close>, decoded as UTF-8.
\<close>

record env =
  fitz_open :: "bytes \<Rightarrow> pdf_doc option"
  image_open :: "bytes \<Rightarrow> pil_image option"
  convert_samples :: "pil_image \<Rightarrow> string \<Rightarrow> bytes"
  replace_image :: "bytes \<Rightarrow> int \<Rightarrow> int \<Rightarrow> pixmap \<Rightarrow> bytes option"
  b64encode :: "bytes \<Rightarrow> string"

text \<open>\<open>Image.tobytes()\<close>: it loads the pixel data.\<close>

definition tobytes :: "pil_image \<Rightarrow> error + bytes" where
  "tobytes img = (case pil_data img of None \<Rightarrow> Inl OSError | Some samples \<Rightarrow> Inr samples)"

text \<open>
  \<open>Image.convert(mode)\<close>: it loads the pixel data, then returns a copy when the image
  already has the mode, otherwise an image of the requested mode and the same size.
\<close>

definition convert :: "env \<Rightarrow> pil_image \<Rightarrow> string \<Rightarrow> error + pil_image" where
  "convert e img m =
     (case pil_data img of
        None \<Rightarrow> Inl OSError
      | Some samples \<Rightarrow>
          Inr (if pil_mode img = m then img
               else img\<lparr>pil_mode := m, pil_data := Some (convert_samples e img m)\<rparr>))"

text \<open>
  Modelled from the spec: the engine primitive \<open>save_incremental\<close>, which is the call
  \<open>doc.save(path, incremental=True, encryption=fitz.PDF_ENCRYPT_KEEP)\<close> of a library
  that is not part of the repository. The specification describes an incremental update
  as an append-only mutation that preserves the original bytes as a prefix and adds new
  objects and a new cross-reference section after them; a save that is not incremental
  writes the file anew.
\<close>

definition save :: "bytes \<Rightarrow> bytes \<Rightarrow> bool \<Rightarrow> bytes" where
  "save stored update incremental = (if incremental then stored @ update else update)"

section \<open>DocumentManager\<close>

definition document_path :: "posix_path \<Rightarrow> string \<Rightarrow> posix_path" where
  "document_path storage_root doc_id = truediv storage_root (doc_id @ ''.pdf'')"

definition ensure_document :: "posix_path \<Rightarrow> filesystem \<Rightarrow> string \<Rightarrow> error + posix_path" where
  "ensure_document storage_root fs doc_id =
     (let path = document_path storage_root doc_id in
      case path_exists fs path of
        Inl err \<Rightarrow> Inl err
      | Inr found \<Rightarrow>
          if \<not> found then Inl (FileNotFoundError ''Document not found'')
          else Inr path)"

definition get_pdf_file :: "posix_path \<Rightarrow> filesystem \<Rightarrow> string \<Rightarrow> error + posix_path" where
  "get_pdf_file storage_root fs doc_id = ensure_document storage_root fs doc_id"

text \<open>
  \<open>_pixmap_from_bytes\<close>. The arguments of \<open>fitz.Pixmap(...)\<close> are evaluated from left to
  right after \<open>samples\<close> has been computed, so the colourspace attribute is looked up
  before the constructor runs.
\<close>

definition pixmap_from_bytes :: "env \<Rightarrow> bytes \<Rightarrow> error + pixmap" where
  "pixmap_from_bytes e raw_bytes =
     (case image_open e raw_bytes of
        None \<Rightarrow> Inl UnidentifiedImageError
      | Some opened \<Rightarrow>
          (case (if pil_mode opened \<noteq> ''RGB'' \<and> pil_mode opened \<noteq> ''RGBA''
                 then convert e opened ''RGBA'' else Inr opened) of
             Inl err \<Rightarrow> Inl err
           | Inr pil_img \<Rightarrow>
               if pil_mode pil_img = ''RGBA''
               then (case tobytes pil_img of
                       Inl err \<Rightarrow> Inl err
                     | Inr samples \<Rightarrow>
                         (case fitz_colorspace ''csRGBA'' of
                            Inl err \<Rightarrow> Inl err
                          | Inr cs \<Rightarrow>
                              Pixmap cs (pil_width pil_img) (pil_height pil_img) samples))
               else (case convert e pil_img ''RGB'' of
                       Inl err \<Rightarrow> Inl err
                     | Inr rgb \<Rightarrow>
                         (case tobytes rgb of
                            Inl err \<Rightarrow> Inl err
                          | Inr samples \<Rightarrow>
                              (case fitz_colorspace ''csRGB'' of
                                 Inl err \<Rightarrow> Inl err
                               | Inr cs \<Rightarrow>
                                   Pixmap cs (pil_width pil_img) (pil_height pil_img)
                                     samples)))))"

text \<open>
  \<open>save_pdf\<close>: \<open>doc_id\<close> is the value of \<open>uuid.uuid4().hex\<close>. The file is written first,
  the bytes are parsed afterwards.
\<close>

definition save_pdf ::
  "env \<Rightarrow> posix_path \<Rightarrow> filesystem \<Rightarrow> string \<Rightarrow> bytes \<Rightarrow> (error + string \<times> int) \<times> filesystem" where
  "save_pdf e storage_root fs doc_id file_bytes =
     (let path = document_path storage_root doc_id;
          fs' = fs(path \<mapsto> File file_bytes)
      in case fitz_open e file_bytes of
           None \<Rightarrow> (Inl FitzError, fs')
         | Some doc \<Rightarrow> (Inr (doc_id, page_count doc), fs'))"

text \<open>The inner loop of \<open>list_page_images\<close>: one occurrence for each rectangle.\<close>

fun append_rects ::
  "int \<Rightarrow> image_dict \<Rightarrow> string \<Rightarrow> rect list \<Rightarrow> PageImage list \<times> int \<Rightarrow> PageImage list \<times> int" where
  "append_rects xr image_info preview [] (images, counter) = (images, counter)"
| "append_rects xr image_info preview (r # rects) (images, counter) =
     append_rects xr image_info preview rects
       (images @
          [\<lparr>index = counter,
            bbox = r,
            width = (case d_width image_info of None \<Rightarrow> 0 | Some w \<Rightarrow> w),
            height = (case d_height image_info of None \<Rightarrow> 0 | Some h \<Rightarrow> h),
            xref = xr,
            preview_base64 = preview,
            extension = (case d_ext image_info of None \<Rightarrow> ''png'' | Some x \<Rightarrow> x)\<rparr>],
        counter + 1)"

text \<open>The outer loop, over the entries of \<open>page.get_images(full=True)\<close>.\<close>

fun scan_images ::
  "env \<Rightarrow> pdf_doc \<Rightarrow> pdf_page \<Rightarrow> int list \<Rightarrow> PageImage list \<times> int \<Rightarrow> PageImage list \<times> int" where
  "scan_images e doc page [] acc = acc"
| "scan_images e doc page (xr # entries) acc =
     (let rects = get_image_rects page xr in
      if rects = [] then scan_images e doc page entries acc
      else if \<not> xref_is_image doc xr then scan_images e doc page entries acc
      else (case extract_image doc xr of
              RuntimeError \<Rightarrow> scan_images e doc page entries acc
            | NotADict \<Rightarrow> scan_images e doc page entries acc
            | Dict image_info \<Rightarrow>
                (case d_image image_info of
                   None \<Rightarrow> scan_images e doc page entries acc
                 | Some data \<Rightarrow>
                     scan_images e doc page entries
                       (append_rects xr image_info (b64encode e data) rects acc))))"

definition list_page_images ::
  "env \<Rightarrow> posix_path \<Rightarrow> filesystem \<Rightarrow> string \<Rightarrow> int \<Rightarrow> error + PageImage list \<times> real \<times> real" where
  "list_page_images e storage_root fs doc_id page_number =
     (case ensure_document storage_root fs doc_id of
        Inl err \<Rightarrow> Inl err
      | Inr path \<Rightarrow>
          (case read_bytes fs path of
             None \<Rightarrow> Inl FitzError
           | Some stored \<Rightarrow>
               (case fitz_open e stored of
                  None \<Rightarrow> Inl FitzError
                | Some doc \<Rightarrow>
                    if \<not> (1 \<le> page_number \<and> page_number \<le> page_count doc)
                    then Inl (ValueError ''Invalid page number'')
                    else (let page = pages doc ! nat (page_number - 1);
                              images = fst (scan_images e doc page (get_images page) ([], 0))
                          in Inr (images, rect_width page, rect_height page)))))"

definition replace_page_image ::
  "env \<Rightarrow> posix_path \<Rightarrow> filesystem \<Rightarrow> string \<Rightarrow> int \<Rightarrow> int \<Rightarrow> bytes \<Rightarrow> (error + unit) \<times> filesystem" where
  "replace_page_image e storage_root fs doc_id page_number image_index new_image_bytes =
     (case ensure_document storage_root fs doc_id of
        Inl err \<Rightarrow> (Inl err, fs)
      | Inr path \<Rightarrow>
          (case list_page_images e storage_root fs doc_id page_number of
             Inl err \<Rightarrow> (Inl err, fs)
           | Inr (images, page_size) \<Rightarrow>
               (case find (\<lambda>img. index img = image_index) images of
                  None \<Rightarrow> (Inl (ValueError ''Image index not found on page''), fs)
                | Some target \<Rightarrow>
                    (case pixmap_from_bytes e new_image_bytes of
                       Inl err \<Rightarrow> (Inl err, fs)
                     | Inr pix \<Rightarrow>
                         (case read_bytes fs path of
                            None \<Rightarrow> (Inl FitzError, fs)
                          | Some stored \<Rightarrow>
                              (case fitz_open e stored of
                                 None \<Rightarrow> (Inl FitzError, fs)
                               | Some doc \<Rightarrow>
                                   (case replace_image e stored (page_number - 1) (xref target) pix of
                                      None \<Rightarrow> (Inl FitzError, fs)
                                    | Some update \<Rightarrow>
                                        (Inr (),
                                         fs(path \<mapsto> File (save stored update True))))))))))"

section \<open>A concrete installation\<close>

text \<open>
  A store under \<open>/srv/storage\<close> and a two-page document used to evaluate the manager.
  Page 1 lists three image resources: xref 7 is drawn once at \<open>(72, 72, 288, 288)\<close>, xref 9
  is a soft mask with no placement, and xref 8 is drawn once, partly left of and below the
  page. Page 2 has no images. The engine reads this document from every byte stream that
  starts with \<open>%PDF\<close>. The decoder identifies an image by the first byte: \<open>0x89\<close> is a
  1 by 1 \<open>RGB\<close> image whose pixel data load only if at least four bytes are there,
  \<open>G\<close> is a 1 by 1 palette image, \<open>R\<close> is a 1 by 1 \<open>RGBA\<close> image; all other bytes are
  rejected. The update section that the engine writes for a replacement starts with the
  xref of the replaced image.
\<close>

definition storage :: posix_path where
  "storage = \<lparr>anchor = ''/'', parts = [''srv'', ''storage'']\<rparr>"

definition page_one :: pdf_page where
  "page_one =
     \<lparr>rect_width = 612, rect_height = 792, get_images = [7, 9, 8],
      get_image_rects =
        (\<lambda>x. if x = 7 then [(72, 72, 288, 288)]
             else if x = 8 then [(- 36, 700, 100, 836)]
             else [])\<rparr>"

definition page_two :: pdf_page where
  "page_two =
     \<lparr>rect_width = 612, rect_height = 792, get_images = [], get_image_rects = (\<lambda>x. [])\<rparr>"

definition two_pages :: pdf_doc where
  "two_pages =
     \<lparr>pages = [page_one, page_two],
      xref_is_image = (\<lambda>x. True),
      extract_image =
        (\<lambda>x. Dict \<lparr>d_image = Some [1, 2, 3], d_width = Some 4, d_height = Some 4,
                      d_ext = Some ''jpeg''\<rparr>)\<rparr>"

text \<open>The two occurrences that the listing of page 1 returns.\<close>

definition occurrence_7 :: PageImage where
  "occurrence_7 =
     \<lparr>index = 0, bbox = (72, 72, 288, 288), width = 4, height = 4, xref = 7,
      preview_base64 = ''AAA'', extension = ''jpeg''\<rparr>"

definition occurrence_8 :: PageImage where
  "occurrence_8 =
     \<lparr>index = 1, bbox = (- 36, 700, 100, 836), width = 4, height = 4, xref = 8,
      preview_base64 = ''AAA'', extension = ''jpeg''\<rparr>"

definition pdf_bytes :: bytes where
  "pdf_bytes = [0x25, 0x50, 0x44, 0x46, 0x2D]"

definition png_bytes :: bytes where
  "png_bytes = [0x89, 0x50, 0x4E, 0x47]"

definition truncated_png_bytes :: bytes where
  "truncated_png_bytes = [0x89, 0x50]"

definition gif_bytes :: bytes where
  "gif_bytes = [0x47, 0x49, 0x46]"

definition rgba_bytes :: bytes where
  "rgba_bytes = [0x52, 0x49, 0x46, 0x46]"

definition text_bytes :: bytes where
  "text_bytes = [0x68, 0x69]"

definition installation :: env where
  "installation =
     \<lparr>fitz_open = (\<lambda>b. if take 4 b = [0x25, 0x50, 0x44, 0x46] then Some two_pages else None),
      image_open =
        (\<lambda>b. if take 1 b = [0x89]
             then Some \<lparr>pil_mode = ''RGB'', pil_width = 1, pil_height = 1,
                        pil_data = (if length b < 4 then None else Some [255, 0, 0])\<rparr>
             else if take 1 b = [0x47]
             then Some \<lparr>pil_mode = ''P'', pil_width = 1, pil_height = 1, pil_data = Some [5]\<rparr>
             else if take 1 b = [0x52]
             then Some \<lparr>pil_mode = ''RGBA'', pil_width = 1, pil_height = 1,
                        pil_data = Some [1, 2, 3, 4]\<rparr>
             else None),
      convert_samples = (\<lambda>img m. if m = ''RGBA'' then [10, 20, 30, 255] else [10, 20, 30]),
      replace_image =
        (\<lambda>stored n x pix.
           if n = 0 \<and> x = 7 then Some (7 # pix_samples pix)
           else if n = 0 \<and> x = 8 then Some (8 # pix_samples pix)
           else None),
      b64encode = (\<lambda>b. replicate (length b) CHR ''A'')\<rparr>"

text \<open>
  The store after the manager was created (the directories exist) and one document
  was uploaded under the identifier \<open>doc\<close>.
\<close>

definition stored_files :: filesystem where
  "stored_files =
     Map.empty
       (\<lparr>anchor = ''/'', parts = [''srv'']\<rparr> \<mapsto> Directory,
        \<lparr>anchor = ''/'', parts = [''srv'', ''storage'']\<rparr> \<mapsto> Directory,
        \<lparr>anchor = ''/'', parts = [''srv'', ''storage'', ''doc.pdf'']\<rparr> \<mapsto> File pdf_bytes)"

text \<open>An identifier of 252 characters; the file name made from it has 256.\<close>

definition long_id :: string where
  "long_id = replicate 252 CHR ''a''"

section \<open>Properties of the listing loop\<close>

text \<open>
  The loop invariant of \<open>list_page_images\<close>: the occurrences collected so far carry the
  indices \<open>0, 1, ...\<close> in order and the counter is their number.
\<close>

definition indexed :: "PageImage list \<times> int \<Rightarrow> bool" where
  "indexed acc =
     (map index (fst acc) = map int [0..<length (fst acc)] \<and> snd acc = int (length (fst acc)))"

text \<open>Every occurrence lies on a rectangle that the engine reports for its resource.\<close>

definition placed :: "pdf_page \<Rightarrow> PageImage list \<Rightarrow> bool" where
  "placed page images =
     (\<forall>img \<in> set images. bbox img \<in> set (get_image_rects page (xref img)))"

text \<open>
  The bound of the specification on a bounding box: it lies within
  \<open>[0, width] \<times> [0, height]\<close> of the page size.
\<close>

fun within_page :: "rect \<Rightarrow> real \<times> real \<Rightarrow> bool" where
  "within_page (x0, y0, x1, y1) (w, h) =
     (0 \<le> x0 \<and> x0 \<le> w \<and> 0 \<le> x1 \<and> x1 \<le> w \<and> 0 \<le> y0 \<and> y0 \<le> h \<and> 0 \<le> y1 \<and> y1 \<le> h)"

text \<open>
  A path within the limits of the operating system: no component is longer than
  \<open>NAME_MAX\<close> and the whole path is shorter than \<open>PATH_MAX\<close>.
\<close>

definition within_limits :: "posix_path \<Rightarrow> bool" where
  "within_limits p =
     (length (fspath p) < PATH_MAX \<and> list_all (\<lambda>c. length c \<le> NAME_MAX) (parts p))"

text \<open>
  Bytes that decode: \<open>Image.open\<close> accepts them and the pixel data of the image load.
\<close>

definition decodable :: "env \<Rightarrow> bytes \<Rightarrow> bool" where
  "decodable e raw_bytes =
     (case image_open e raw_bytes of None \<Rightarrow> False | Some img \<Rightarrow> pil_data img \<noteq> None)"

lemma append_rects_indexed:
  "indexed (images, counter) \<Longrightarrow> indexed (append_rects xr info pv rects (images, counter))"
proof (induction rects arbitrary: images counter)
  case Nil
  then show ?case by simp
next
  case (Cons r rects)
  show ?case
    apply (simp only: append_rects.simps)
    apply (rule Cons.IH)
    using Cons.prems by (simp add: indexed_def)
qed

lemma append_rects_placed:
  "placed page images \<Longrightarrow> set rects \<subseteq> set (get_image_rects page xr) \<Longrightarrow>
   placed page (fst (append_rects xr info pv rects (images, counter)))"
proof (induction rects arbitrary: images counter)
  case Nil
  then show ?case by simp
next
  case (Cons r rects)
  show ?case
    apply (simp only: append_rects.simps)
    apply (rule Cons.IH)
    using Cons.prems by (auto simp add: placed_def)
qed

lemma scan_images_indexed:
  "indexed acc \<Longrightarrow> indexed (scan_images e doc page entries acc)"
proof (induction entries arbitrary: acc)
  case Nil
  then show ?case by simp
next
  case (Cons xr entries)
  obtain images counter where acc: "acc = (images, counter)" by (cases acc)
  show ?case
    using Cons.prems Cons.IH append_rects_indexed acc
    by (auto simp add: Let_def split: extract_result.splits option.splits)
qed

lemma scan_images_placed:
  "placed page (fst acc) \<Longrightarrow> placed page (fst (scan_images e doc page entries acc))"
proof (induction entries arbitrary: acc)
  case Nil
  then show ?case by simp
next
  case (Cons xr entries)
  obtain images counter where acc: "acc = (images, counter)" by (cases acc)
  have step: "placed page (fst (append_rects xr info pv (get_image_rects page xr) acc))"
    for info pv
    using append_rects_placed [of page images "get_image_rects page xr" xr info pv counter]
      Cons.prems acc
    by simp
  show ?case
    using Cons.prems Cons.IH step
    by (auto simp add: Let_def split: extract_result.splits option.splits)
qed

section \<open>Properties of the existence check\<close>

lemma path_exists_stored: "fs p = Some found \<Longrightarrow> path_exists fs p = Inr True"
  by (simp add: path_exists_def)

lemma path_exists_TrueD: "path_exists fs p = Inr True \<Longrightarrow> fs p \<noteq> None"
  by (auto simp add: path_exists_def split: if_splits)

lemma name_too_long_short:
  "list_all (\<lambda>c. length c \<le> NAME_MAX) cs \<Longrightarrow> \<not> name_too_long fs a cur cs"
  by (induction cs arbitrary: cur) auto

lemma path_exists_within_limits:
  assumes "within_limits p"
  shows "path_exists fs p = Inr (fs p \<noteq> None)"
  using assms name_too_long_short [of "parts p" fs "anchor p" "[]"]
  by (auto simp add: path_exists_def within_limits_def)

lemma ensure_document_stored:
  "fs (document_path storage_root doc_id) = Some found \<Longrightarrow>
   ensure_document storage_root fs doc_id = Inr (document_path storage_root doc_id)"
  by (simp add: ensure_document_def path_exists_stored)

lemma ensure_document_InrD:
  assumes "ensure_document storage_root fs doc_id = Inr path"
  shows "path = document_path storage_root doc_id \<and> fs path \<noteq> None"
proof -
  have "path_exists fs (document_path storage_root doc_id) = Inr True \<and>
        path = document_path storage_root doc_id"
    using assms by (auto simp add: ensure_document_def Let_def split: sum.splits if_splits)
  then show ?thesis using path_exists_TrueD by blast
qed

lemma read_bytes_SomeD: "read_bytes fs p = Some stored \<Longrightarrow> fs p = Some (File stored)"
  by (auto simp add: read_bytes_def split: option.splits node.splits)

lemma read_bytes_File: "fs p = Some (File stored) \<Longrightarrow> read_bytes fs p = Some stored"
  by (simp add: read_bytes_def)

section \<open>Properties of the listing\<close>

lemma list_page_images_valid:
  assumes "fs (document_path storage_root doc_id) = Some (File stored)"
    and "fitz_open e stored = Some doc"
    and "1 \<le> page_number" and "page_number \<le> page_count doc"
  shows "list_page_images e storage_root fs doc_id page_number =
           Inr (fst (scan_images e doc (pages doc ! nat (page_number - 1))
                      (get_images (pages doc ! nat (page_number - 1))) ([], 0)),
                rect_width (pages doc ! nat (page_number - 1)),
                rect_height (pages doc ! nat (page_number - 1)))"
  using assms
  by (simp add: list_page_images_def Let_def read_bytes_File
      ensure_document_stored [where fs = fs and storage_root = storage_root
        and doc_id = doc_id, OF assms(1)])

lemma list_page_images_InrD:
  assumes "list_page_images e storage_root fs doc_id page_number = Inr (images, page_size)"
  shows "\<exists>stored doc. fs (document_path storage_root doc_id) = Some (File stored) \<and>
           fitz_open e stored = Some doc \<and> 1 \<le> page_number \<and> page_number \<le> page_count doc \<and>
           images = fst (scan_images e doc (pages doc ! nat (page_number - 1))
                      (get_images (pages doc ! nat (page_number - 1))) ([], 0))"
proof -
  obtain path where ens: "ensure_document storage_root fs doc_id = Inr path"
    using assms by (auto simp add: list_page_images_def split: sum.splits)
  then have path: "path = document_path storage_root doc_id"
    using ensure_document_InrD by blast
  obtain stored where rd: "read_bytes fs path = Some stored"
    using assms ens by (auto simp add: list_page_images_def split: option.splits)
  then have st: "fs (document_path storage_root doc_id) = Some (File stored)"
    using read_bytes_SomeD path by blast
  show ?thesis
    using assms ens rd st path
    by (auto simp add: list_page_images_def Let_def split: option.splits if_splits)
qed

lemma scan_images_index:
  "map index (fst (scan_images e doc page entries ([], 0))) =
     map int [0..<length (fst (scan_images e doc page entries ([], 0)))]"
  using scan_images_indexed [of "([], 0)" e doc page entries]
  by (simp add: indexed_def)

lemma list_page_images_index:
  assumes "list_page_images e storage_root fs doc_id page_number = Inr (images, page_size)"
  shows "map index images = map int [0..<length images]"
  using list_page_images_InrD [OF assms] scan_images_index by auto

lemma index_nth:
  assumes "map index images = map int [0..<length images]" and "k < length images"
  shows "index (images ! k) = int k"
proof -
  have "index (images ! k) = map index images ! k" using assms(2) by simp
  also have "\<dots> = map int [0..<length images] ! k" using assms(1) by simp
  also have "\<dots> = int k" using assms(2) by simp
  finally show ?thesis .
qed

lemma find_index_nth:
  assumes "map index images = map int [0..<length images]"
    and "0 \<le> t" and "t < int (length images)"
  shows "find (\<lambda>img. index img = t) images = Some (images ! nat t)"
proof -
  have k: "nat t < length images" using assms(2,3) by simp
  have "index (images ! nat t) = t" using index_nth [OF assms(1) k] assms(2) by simp
  moreover have "\<forall>j<nat t. index (images ! j) \<noteq> t"
  proof (intro allI impI)
    fix j assume j: "j < nat t"
    then have "index (images ! j) = int j" using index_nth [OF assms(1)] k by simp
    then show "index (images ! j) \<noteq> t" using j by simp
  qed
  ultimately show ?thesis using k by (auto simp add: find_Some_iff)
qed

lemma find_index_none:
  "i \<notin> index ` set images \<Longrightarrow> find (\<lambda>img. index img = i) images = None"
  by (auto simp add: find_None_iff)

lemma index_range:
  assumes "map index images = map int [0..<length images]"
  shows "index ` set images = {t. 0 \<le> t \<and> t < int (length images)}"
proof -
  have "index ` set images = set (map index images)" by simp
  also have "\<dots> = int ` {0..<length images}" using assms by simp
  also have "\<dots> = {t. 0 \<le> t \<and> t < int (length images)}"
    by (auto simp add: image_int_atLeastLessThan)
  finally show ?thesis .
qed

section \<open>Properties of the pixel buffer\<close>

lemma pixmap_from_bytes_not_decodable:
  assumes "\<not> decodable e raw_bytes"
  shows "pixmap_from_bytes e raw_bytes =
           Inl (case image_open e raw_bytes of
                  None \<Rightarrow> UnidentifiedImageError
                | Some img \<Rightarrow> OSError)"
  using assms
  by (auto simp add: decodable_def pixmap_from_bytes_def convert_def tobytes_def
      split: option.splits)

lemma pixmap_from_bytes_loaded:
  assumes "image_open e raw_bytes = Some img" and "pil_data img = Some samples"
  shows "pixmap_from_bytes e raw_bytes =
           (if pil_mode img = ''RGB''
            then Pixmap csRGB (pil_width img) (pil_height img) samples
            else Inl (AttributeError ''csRGBA''))"
  using assms
  by (simp add: pixmap_from_bytes_def convert_def tobytes_def fitz_colorspace_def)

text \<open>
  Every pixmap that \<open>pixmap_from_bytes\<close> returns is a \<open>csRGB\<close> pixmap with three samples
  for each pixel: the constructor refuses a buffer of any other length.
\<close>

lemma pixmap_from_bytes_full_length:
  assumes "pixmap_from_bytes e raw_bytes = Inr pix"
  shows "pix_colorspace pix = csRGB \<and>
         3 * pix_width pix * pix_height pix = int (length (pix_samples pix))"
proof -
  obtain img where op: "image_open e raw_bytes = Some img"
    using assms by (cases "image_open e raw_bytes") (auto simp add: pixmap_from_bytes_def)
  have dec: "decodable e raw_bytes"
    using assms pixmap_from_bytes_not_decodable [of e raw_bytes] by (cases "decodable e raw_bytes") auto
  then obtain samples where ld: "pil_data img = Some samples"
    using op by (auto simp add: decodable_def)
  show ?thesis
    using assms pixmap_from_bytes_loaded [OF op ld]
    by (auto simp add: Pixmap_def split: if_splits)
qed

section \<open>The concrete installation, evaluated\<close>

lemma storage_doc_path:
  "document_path storage ''doc'' =
     \<lparr>anchor = ''/'', parts = [''srv'', ''storage'', ''doc.pdf'']\<rparr>"
  by (simp add: document_path_def truediv_def storage_def rel_parts_def)

lemma stored_doc: "stored_files (document_path storage ''doc'') = Some (File pdf_bytes)"
  by (simp add: storage_doc_path stored_files_def)

lemma open_pdf_bytes: "fitz_open installation pdf_bytes = Some two_pages"
  by (simp add: installation_def pdf_bytes_def)

lemma page_count_two_pages: "page_count two_pages = 2"
  by (simp add: page_count_def two_pages_def)

lemma listing_page_one:
  "list_page_images installation storage stored_files ''doc'' 1 =
     Inr ([occurrence_7, occurrence_8], 612, 792)"
proof -
  have h3: "(1 :: int) \<le> 1" by simp
  have h4: "1 \<le> page_count two_pages" by (simp add: page_count_two_pages)
  have sc: "scan_images installation two_pages page_one [7, 9, 8] ([], 0) =
      ([occurrence_7, occurrence_8], 2)"
    by (simp add: two_pages_def page_one_def installation_def
        occurrence_7_def occurrence_8_def)
  show ?thesis
    using list_page_images_valid [where fs = stored_files and storage_root = storage
        and doc_id = "''doc''" and e = installation and page_number = 1,
        OF stored_doc open_pdf_bytes h3 h4] sc
    by (simp add: two_pages_def page_one_def)
qed

lemma occurrence_indices: "index occurrence_7 = 0 \<and> index occurrence_8 = 1"
  by (simp add: occurrence_7_def occurrence_8_def)

lemma png_pixmap:
  "pixmap_from_bytes installation png_bytes =
     Inr \<lparr>pix_colorspace = csRGB, pix_width = 1, pix_height = 1, pix_samples = [255, 0, 0],
          pix_alpha = False\<rparr>"
  by (simp add: pixmap_from_bytes_def installation_def png_bytes_def Pixmap_def convert_def
      tobytes_def fitz_colorspace_def)

section \<open>Failure paths of the manager\<close>

lemma list_page_images_invalid_page:
  assumes "fs (document_path storage_root doc_id) = Some (File stored)"
    and "fitz_open e stored = Some doc"
    and "\<not> (1 \<le> page_number \<and> page_number \<le> page_count doc)"
  shows "list_page_images e storage_root fs doc_id page_number =
           Inl (ValueError ''Invalid page number'')"
  using assms
  by (simp add: list_page_images_def read_bytes_File
      ensure_document_stored [where fs = fs and storage_root = storage_root
        and doc_id = doc_id, OF assms(1)])

lemma replace_page_image_index_missing:
  assumes "list_page_images e storage_root fs doc_id page_number = Inr (images, page_size)"
    and "image_index \<notin> index ` set images"
  shows "replace_page_image e storage_root fs doc_id page_number image_index new_image_bytes =
           (Inl (ValueError ''Image index not found on page''), fs)"
proof -
  obtain stored where st: "fs (document_path storage_root doc_id) = Some (File stored)"
    using list_page_images_InrD [OF assms(1)] by blast
  have ens: "ensure_document storage_root fs doc_id = Inr (document_path storage_root doc_id)"
    using st by (rule ensure_document_stored)
  show ?thesis
    by (simp add: replace_page_image_def ens assms(1) find_index_none [OF assms(2)])
qed

text \<open>
  What \<open>replace_page_image\<close> does once the listing has succeeded and the search has found
  its target.
\<close>

lemma replace_page_image_found:
  assumes "list_page_images e storage_root fs doc_id page_number = Inr (images, page_size)"
    and "fs (document_path storage_root doc_id) = Some (File stored)"
    and "find (\<lambda>img. index img = image_index) images = Some target"
  shows "replace_page_image e storage_root fs doc_id page_number image_index new_image_bytes =
           (case pixmap_from_bytes e new_image_bytes of
              Inl err \<Rightarrow> (Inl err, fs)
            | Inr pix \<Rightarrow>
                (case replace_image e stored (page_number - 1) (xref target) pix of
                   None \<Rightarrow> (Inl FitzError, fs)
                 | Some update \<Rightarrow>
                     (Inr (),
                      fs(document_path storage_root doc_id \<mapsto>
                           File (save stored update True)))))"
proof -
  have ens: "ensure_document storage_root fs doc_id = Inr (document_path storage_root doc_id)"
    using assms(2) by (rule ensure_document_stored)
  obtain stored' doc where
    "fs (document_path storage_root doc_id) = Some (File stored')" and
    "fitz_open e stored' = Some doc"
    using list_page_images_InrD [OF assms(1)] by blast
  then have op: "fitz_open e stored = Some doc" using assms(2) by simp
  show ?thesis
    by (simp add: replace_page_image_def ens assms(1) assms(3) op
        read_bytes_File [where fs = fs and p = "document_path storage_root doc_id",
          OF assms(2)]
        split: sum.splits option.splits)
qed

lemma replace_first_image:
  "replace_page_image installation storage stored_files ''doc'' 1 0 png_bytes =
     (Inr (),
      stored_files(document_path storage ''doc'' \<mapsto> File (pdf_bytes @ [7, 255, 0, 0])))"
proof -
  have f: "find (\<lambda>img. index img = 0) [occurrence_7, occurrence_8] = Some occurrence_7"
    by (simp add: occurrence_indices)
  have rp: "replace_image installation pdf_bytes 0 (xref occurrence_7)
       \<lparr>pix_colorspace = csRGB, pix_width = 1, pix_height = 1, pix_samples = [255, 0, 0],
        pix_alpha = False\<rparr> = Some [7, 255, 0, 0]"
    by (simp add: installation_def occurrence_7_def)
  show ?thesis
    using replace_page_image_found [OF listing_page_one stored_doc f, of png_bytes]
    by (simp add: png_pixmap rp save_def)
qed

section \<open>Paths of plain file names\<close>

lemma split_sep_no_sep: "CHR ''/'' \<notin> set s \<Longrightarrow> split_sep s = [s]"
  by (induction s) auto

lemma rel_parts_file_name:
  assumes "CHR ''/'' \<notin> set doc_id"
  shows "rel_parts (doc_id @ ''.pdf'') = [doc_id @ ''.pdf'']"
proof -
  have "CHR ''/'' \<notin> set (doc_id @ ''.pdf'')" using assms by simp
  then have "split_sep (doc_id @ ''.pdf'') = [doc_id @ ''.pdf'']" by (rule split_sep_no_sep)
  moreover have "doc_id @ ''.pdf'' \<noteq> []" by simp
  moreover have "doc_id @ ''.pdf'' \<noteq> ''.''"
  proof
    assume "doc_id @ ''.pdf'' = ''.''"
    then have "length (doc_id @ ''.pdf'') = length ''.''" by (rule arg_cong)
    then show False by simp
  qed
  ultimately show ?thesis by (simp add: rel_parts_def)
qed

lemma document_path_file_name:
  assumes "CHR ''/'' \<notin> set doc_id"
  shows "document_path storage_root doc_id =
           \<lparr>anchor = anchor storage_root, parts = parts storage_root @ [doc_id @ ''.pdf'']\<rparr>"
proof -
  have "take 1 (doc_id @ ''.pdf'') \<noteq> ''/''"
    using assms by (cases doc_id) auto
  then show ?thesis
    by (simp add: document_path_def truediv_def rel_parts_file_name [OF assms])
qed

lemma long_id_path:
  "document_path storage long_id =
     \<lparr>anchor = ''/'', parts = [''srv'', ''storage'', long_id @ ''.pdf'']\<rparr>"
proof -
  have "CHR ''/'' \<notin> set long_id" by (simp add: long_id_def)
  then show ?thesis using document_path_file_name by (simp add: storage_def)
qed

lemma long_id_length: "length (long_id @ ''.pdf'') = 256"
  by (simp add: long_id_def)

lemma long_id_not_stored: "stored_files (document_path storage long_id) = None"
proof -
  have "long_id @ ''.pdf'' \<noteq> ''doc.pdf''"
  proof
    assume "long_id @ ''.pdf'' = ''doc.pdf''"
    then have "length (long_id @ ''.pdf'') = length ''doc.pdf''" by (rule arg_cong)
    then show False using long_id_length by simp
  qed
  then show ?thesis by (simp add: long_id_path stored_files_def)
qed

lemma long_id_exists:
  "path_exists stored_files (document_path storage long_id) = Inl OSError"
proof -
  have nul: "CHR 0x00 \<notin> set (fspath (document_path storage long_id))"
    unfolding long_id_path by (simp add: fspath_def long_id_def)
  have len: "length (fspath (document_path storage long_id)) < PATH_MAX"
    unfolding long_id_path using long_id_length by (simp add: fspath_def PATH_MAX_def)
  have walk: "name_too_long stored_files ''/'' [] [''srv'', ''storage'', long_id @ ''.pdf'']"
    using long_id_length by (simp add: stored_files_def NAME_MAX_def)
  show ?thesis
    using long_id_not_stored nul len walk
    unfolding path_exists_def long_id_path by simp
qed

section \<open>Claims\<close>

text \<open>
  Claim C1, as stated, at the concrete installation: the second occurrence of page 1 is
  the image of xref 8, which the engine places at \<open>(-36, 700, 100, 836)\<close> on a page of
  612 by 792; its bounding box is returned as reported and does not lie within the page.
\<close>

theorem list_page_images_bbox_outside_page:
  "list_page_images installation storage stored_files ''doc'' 1 =
     Inr ([occurrence_7, occurrence_8], 612, 792) \<and>
   bbox occurrence_8 = (- 36, 700, 100, 836) \<and>
   \<not> within_page (bbox occurrence_8) (612, 792)"
  by (simp add: listing_page_one) (simp add: occurrence_8_def)

text \<open>
  Claim C1, amended: for every stored document that the engine opens and every page number
  from 1 to the page count, \<open>list_page_images\<close> returns the size of that page and a list
  of occurrences whose indices are strictly increasing and start at 0; every bounding box
  is one of the placement rectangles that the engine reports for the resource of its
  occurrence, passed on as reported (it is not clipped to the page); and a resource with
  no placement rectangle appears in no occurrence.
\<close>

theorem list_page_images_occurrences:
  assumes "fs (document_path storage_root doc_id) = Some (File stored)"
    and "fitz_open e stored = Some doc"
    and "1 \<le> page_number" and "page_number \<le> page_count doc"
    and "page = pages doc ! nat (page_number - 1)"
  shows "\<exists>images.
           list_page_images e storage_root fs doc_id page_number =
             Inr (images, rect_width page, rect_height page) \<and>
           sorted_wrt (<) (map index images) \<and>
           (images \<noteq> [] \<longrightarrow> index (hd images) = 0) \<and>
           (\<forall>img \<in> set images. bbox img \<in> set (get_image_rects page (xref img))) \<and>
           (\<forall>x. get_image_rects page x = [] \<longrightarrow> x \<notin> xref ` set images)"
proof -
  define images where
    "images = fst (scan_images e doc page (get_images page) ([], 0))"
  have res: "list_page_images e storage_root fs doc_id page_number =
               Inr (images, rect_width page, rect_height page)"
    using list_page_images_valid [where fs = fs and storage_root = storage_root
        and doc_id = doc_id, OF assms(1-4)] assms(5) images_def by simp
  have idx: "map index images = map int [0..<length images]"
    using list_page_images_index [OF res] .
  have sorted: "sorted_wrt (<) (map index images)"
    unfolding idx by (simp add: sorted_wrt_map sorted_wrt_upt)
  have first: "images \<noteq> [] \<longrightarrow> index (hd images) = 0"
    using index_nth [OF idx, of 0] by (auto simp add: hd_conv_nth)
  have pl: "placed page images"
    unfolding images_def by (rule scan_images_placed) (simp add: placed_def)
  then have on: "\<forall>img \<in> set images. bbox img \<in> set (get_image_rects page (xref img))"
    by (simp add: placed_def)
  then have none: "\<forall>x. get_image_rects page x = [] \<longrightarrow> x \<notin> xref ` set images"
    by fastforce
  show ?thesis using res sorted first on none by blast
qed

text \<open>
  Claim C1, amended, at the concrete installation: page 1 of the stored document, where
  the soft mask of xref 9 has no placement rectangle.
\<close>

theorem list_page_images_occurrences_witness:
  "stored_files (document_path storage ''doc'') = Some (File pdf_bytes) \<and>
   fitz_open installation pdf_bytes = Some two_pages \<and>
   (1 :: int) \<le> 1 \<and> 1 \<le> page_count two_pages \<and>
   page_one = pages two_pages ! nat (1 - 1) \<and>
   (\<exists>images.
      list_page_images installation storage stored_files ''doc'' 1 = Inr (images, 612, 792) \<and>
      sorted_wrt (<) (map index images) \<and> 9 \<notin> xref ` set images)"
proof -
  have h1: "stored_files (document_path storage ''doc'') = Some (File pdf_bytes)"
    by (rule stored_doc)
  have h2: "fitz_open installation pdf_bytes = Some two_pages" by (rule open_pdf_bytes)
  have h3: "(1 :: int) \<le> 1" by simp
  have h4: "1 \<le> page_count two_pages" by (simp add: page_count_two_pages)
  have h5: "page_one = pages two_pages ! nat (1 - 1)" by (simp add: two_pages_def)
  have h6: "get_image_rects page_one 9 = []" by (simp add: page_one_def)
  have h7: "rect_width page_one = 612 \<and> rect_height page_one = 792" by (simp add: page_one_def)
  show ?thesis
    using list_page_images_occurrences [where fs = stored_files and storage_root = storage
        and doc_id = "''doc''", OF h1 h2 h3 h4 h5] h1 h2 h4 h5 h6 h7 by auto
qed

text \<open>
  Claim C2: when the listing of the page succeeds (the document is stored and the page
  number is valid), an occurrence carries the requested index and the replacement bytes
  do not decode, whether \<open>Image.open\<close> rejects them or the pixel data of the opened image
  fail to load, \<open>replace_page_image\<close> fails with the decode error that PIL raises
  (\<open>UnidentifiedImageError\<close> in the first case, \<open>OSError\<close> in the second) and the file
  system is the one it started from: no file has been written.
\<close>

theorem replace_page_image_decode_failure:
  assumes "list_page_images e storage_root fs doc_id page_number = Inr (images, page_size)"
    and "image_index \<in> index ` set images"
    and "\<not> decodable e new_image_bytes"
    and "err = (case image_open e new_image_bytes of
                  None \<Rightarrow> UnidentifiedImageError
                | Some img \<Rightarrow> OSError)"
  shows "replace_page_image e storage_root fs doc_id page_number image_index new_image_bytes =
           (Inl err, fs) \<and>
         DecodeError err"
proof -
  obtain stored where st: "fs (document_path storage_root doc_id) = Some (File stored)"
    using list_page_images_InrD [OF assms(1)] by blast
  obtain target where tg: "find (\<lambda>img. index img = image_index) images = Some target"
    using assms(2) by (cases "find (\<lambda>img. index img = image_index) images")
      (auto simp add: find_None_iff)
  have dec: "pixmap_from_bytes e new_image_bytes = Inl err"
    using pixmap_from_bytes_not_decodable [OF assms(3)] assms(4) by simp
  have "replace_page_image e storage_root fs doc_id page_number image_index new_image_bytes =
      (Inl err, fs)"
    using replace_page_image_found [OF assms(1) st tg, of new_image_bytes] dec by simp
  moreover have "DecodeError err"
    using assms(4) by (simp add: DecodeError_def split: option.splits)
  ultimately show ?thesis by simp
qed

text \<open>
  Claim C2 at the concrete installation, for occurrence 0 of page 1: two bytes of text,
  which \<open>Image.open\<close> rejects, and a truncated PNG, which it opens but whose pixel data do
  not load.
\<close>

theorem replace_page_image_decode_failure_witness:
  "list_page_images installation storage stored_files ''doc'' 1 =
     Inr ([occurrence_7, occurrence_8], 612, 792) \<and>
   0 \<in> index ` set [occurrence_7, occurrence_8] \<and>
   \<not> decodable installation text_bytes \<and>
   replace_page_image installation storage stored_files ''doc'' 1 0 text_bytes =
     (Inl UnidentifiedImageError, stored_files) \<and>
   \<not> decodable installation truncated_png_bytes \<and>
   replace_page_image installation storage stored_files ''doc'' 1 0 truncated_png_bytes =
     (Inl OSError, stored_files)"
proof -
  have i: "0 \<in> index ` set [occurrence_7, occurrence_8]"
    by (simp add: occurrence_indices)
  have t: "image_open installation text_bytes = None"
    by (simp add: installation_def text_bytes_def)
  have p: "image_open installation truncated_png_bytes =
      Some \<lparr>pil_mode = ''RGB'', pil_width = 1, pil_height = 1, pil_data = None\<rparr>"
    by (simp add: installation_def truncated_png_bytes_def)
  have nt: "\<not> decodable installation text_bytes" by (simp add: decodable_def t)
  have np: "\<not> decodable installation truncated_png_bytes" by (simp add: decodable_def p)
  show ?thesis
    using replace_page_image_decode_failure [OF listing_page_one i nt refl]
      replace_page_image_decode_failure [OF listing_page_one i np refl]
      listing_page_one i nt np t p
    by simp
qed

text \<open>
  Claim C3: after a successful \<open>replace_page_image\<close>, every stored file that started
  with the bytes \<open>original\<close> still starts with them; its first \<open>length original\<close> bytes
  are \<open>original\<close>. The originally uploaded bytes are such a prefix right after \<open>save_pdf\<close>
  and so remain one after every successful replacement.
\<close>

theorem replace_page_image_keeps_prefix:
  assumes "replace_page_image e storage_root fs doc_id page_number image_index new_image_bytes =
             (Inr (), fs')"
    and "fs path = Some (File stored)"
    and "prefix original stored"
  shows "\<exists>stored'. fs' path = Some (File stored') \<and> take (length original) stored' = original"
proof -
  obtain target_path old update where
    old: "read_bytes fs target_path = Some old" and
    new: "fs' = fs(target_path \<mapsto> File (save old update True))"
    using assms(1)
    by (auto simp add: replace_page_image_def
        split: sum.splits option.splits prod.splits)
  have old': "fs target_path = Some (File old)" using old by (rule read_bytes_SomeD)
  show ?thesis
  proof (cases "path = target_path")
    case True
    then have "old = stored" using old' assms(2) by simp
    then have "fs' path = Some (File (stored @ update))" using new True by (simp add: save_def)
    moreover have "take (length original) (stored @ update) = original"
      using assms(3) by (auto simp add: prefix_def)
    ultimately show ?thesis by blast
  next
    case False
    then have "fs' path = Some (File stored)" using new assms(2) by simp
    moreover have "take (length original) stored = original"
      using assms(3) by (auto simp add: prefix_def)
    ultimately show ?thesis by blast
  qed
qed

text \<open>
  Claim C3 at the concrete installation: replacing occurrence 0 of page 1 appends the
  update section to the five stored bytes.
\<close>

theorem replace_page_image_keeps_prefix_witness:
  "replace_page_image installation storage stored_files ''doc'' 1 0 png_bytes =
     (Inr (),
      stored_files(document_path storage ''doc'' \<mapsto> File (pdf_bytes @ [7, 255, 0, 0]))) \<and>
   stored_files (document_path storage ''doc'') = Some (File pdf_bytes) \<and>
   prefix pdf_bytes pdf_bytes \<and>
   (\<exists>stored'.
      (stored_files(document_path storage ''doc'' \<mapsto> File (pdf_bytes @ [7, 255, 0, 0])))
        (document_path storage ''doc'') = Some (File stored') \<and>
      take (length pdf_bytes) stored' = pdf_bytes)"
proof -
  have h3: "prefix pdf_bytes pdf_bytes" by simp
  show ?thesis
    using replace_page_image_keeps_prefix [OF replace_first_image stored_doc h3]
      replace_first_image stored_doc
    by simp
qed

text \<open>
  Claim C4: for a stored document that the engine opens, \<open>list_page_images\<close> fails with
  \<open>InvalidPageError\<close> for page 0 and for page \<open>page_count + 1\<close>; on a valid page
  \<open>replace_page_image\<close> fails with \<open>ImageIndexNotFoundError\<close> for index \<open>-1\<close>, for index
  999999 when the page has at most 999999 occurrences, and for every index that no
  occurrence of the fresh listing carries; the file system is unchanged.
\<close>

theorem boundary_page_and_index:
  assumes "fs (document_path storage_root doc_id) = Some (File stored)"
    and "fitz_open e stored = Some doc"
  shows "list_page_images e storage_root fs doc_id 0 = Inl InvalidPageError \<and>
         list_page_images e storage_root fs doc_id (page_count doc + 1) = Inl InvalidPageError \<and>
         (1 \<le> page_number \<and> page_number \<le> page_count doc \<longrightarrow>
            replace_page_image e storage_root fs doc_id page_number (- 1) new_image_bytes =
              (Inl ImageIndexNotFoundError, fs)) \<and>
         (list_page_images e storage_root fs doc_id page_number = Inr (images, page_size) \<and>
          length images \<le> 999999 \<longrightarrow>
            replace_page_image e storage_root fs doc_id page_number 999999 new_image_bytes =
              (Inl ImageIndexNotFoundError, fs)) \<and>
         (list_page_images e storage_root fs doc_id page_number = Inr (images, page_size) \<and>
          image_index \<notin> index ` set images \<longrightarrow>
            replace_page_image e storage_root fs doc_id page_number image_index new_image_bytes =
              (Inl ImageIndexNotFoundError, fs))"
proof (intro conjI impI)
  show "list_page_images e storage_root fs doc_id 0 = Inl InvalidPageError"
    using list_page_images_invalid_page [where fs = fs and storage_root = storage_root
        and doc_id = doc_id, OF assms, of 0]
    by (simp add: InvalidPageError_def)
  show "list_page_images e storage_root fs doc_id (page_count doc + 1) = Inl InvalidPageError"
    using list_page_images_invalid_page [where fs = fs and storage_root = storage_root
        and doc_id = doc_id, OF assms, of "page_count doc + 1"]
    by (simp add: InvalidPageError_def)
next
  assume valid: "1 \<le> page_number \<and> page_number \<le> page_count doc"
  define found where
    "found = fst (scan_images e doc (pages doc ! nat (page_number - 1))
                    (get_images (pages doc ! nat (page_number - 1))) ([], 0))"
  have res: "list_page_images e storage_root fs doc_id page_number =
      Inr (found, rect_width (pages doc ! nat (page_number - 1)),
           rect_height (pages doc ! nat (page_number - 1)))"
    using list_page_images_valid [where fs = fs and storage_root = storage_root
        and doc_id = doc_id, OF assms] valid found_def by simp
  have "- 1 \<notin> index ` set found"
    using index_range [OF list_page_images_index [OF res]] by simp
  then show "replace_page_image e storage_root fs doc_id page_number (- 1) new_image_bytes =
      (Inl ImageIndexNotFoundError, fs)"
    using replace_page_image_index_missing [OF res] by (simp add: ImageIndexNotFoundError_def)
next
  assume a: "list_page_images e storage_root fs doc_id page_number = Inr (images, page_size) \<and>
    length images \<le> 999999"
  then have "999999 \<notin> index ` set images"
    using index_range [OF list_page_images_index [of e storage_root fs doc_id page_number images page_size]]
    by simp
  then show "replace_page_image e storage_root fs doc_id page_number 999999 new_image_bytes =
      (Inl ImageIndexNotFoundError, fs)"
    using replace_page_image_index_missing a by (simp add: ImageIndexNotFoundError_def)
next
  assume a: "list_page_images e storage_root fs doc_id page_number = Inr (images, page_size) \<and>
    image_index \<notin> index ` set images"
  then show "replace_page_image e storage_root fs doc_id page_number image_index new_image_bytes =
      (Inl ImageIndexNotFoundError, fs)"
    using replace_page_image_index_missing by (simp add: ImageIndexNotFoundError_def)
qed

text \<open>
  Claim C4 at the concrete installation, whose document has two pages and whose page 1
  has two occurrences.
\<close>

theorem boundary_page_and_index_witness:
  "stored_files (document_path storage ''doc'') = Some (File pdf_bytes) \<and>
   fitz_open installation pdf_bytes = Some two_pages \<and>
   (1 :: int) \<le> 1 \<and> 1 \<le> page_count two_pages \<and>
   list_page_images installation storage stored_files ''doc'' 1 =
     Inr ([occurrence_7, occurrence_8], 612, 792) \<and>
   list_page_images installation storage stored_files ''doc'' 0 = Inl InvalidPageError \<and>
   list_page_images installation storage stored_files ''doc'' 3 = Inl InvalidPageError \<and>
   replace_page_image installation storage stored_files ''doc'' 1 (- 1) png_bytes =
     (Inl ImageIndexNotFoundError, stored_files) \<and>
   replace_page_image installation storage stored_files ''doc'' 1 999999 png_bytes =
     (Inl ImageIndexNotFoundError, stored_files) \<and>
   replace_page_image installation storage stored_files ''doc'' 1 2 png_bytes =
     (Inl ImageIndexNotFoundError, stored_files)"
proof -
  have h3: "length [occurrence_7, occurrence_8] \<le> 999999" by simp
  show ?thesis
    using boundary_page_and_index [where fs = stored_files and storage_root = storage
        and doc_id = "''doc''" and page_number = 1 and new_image_bytes = png_bytes
        and image_index = 2 and page_size = "(612, 792)"
        and images = "[occurrence_7, occurrence_8]",
        OF stored_doc open_pdf_bytes]
      stored_doc open_pdf_bytes page_count_two_pages listing_page_one h3
    by (simp add: occurrence_indices)
qed

text \<open>
  Claim C5 on the code: for bytes that decode, an \<open>RGB\<close> image reaches the engine as a
  three-channel \<open>csRGB\<close> buffer of its samples as they are (no alpha channel is added).
  An image of any other mode, \<open>RGBA\<close> or converted to \<open>RGBA\<close>, never becomes a buffer:
  line 56 of the source names \<open>fitz.csRGBA\<close>, which the module \<open>fitz\<close> does not have, and
  the lookup raises \<open>AttributeError\<close>. The claim's four-channel \<open>RGBA\<close> buffer is what the
  code attempts and misses.
\<close>

theorem pixmap_from_bytes_by_mode:
  assumes "image_open e raw_bytes = Some img"
    and "pil_data img = Some samples"
  shows "(pil_mode img \<noteq> ''RGB'' \<longrightarrow>
            pixmap_from_bytes e raw_bytes = Inl (AttributeError ''csRGBA'')) \<and>
         (pil_mode img = ''RGB'' \<longrightarrow>
            pixmap_from_bytes e raw_bytes =
              Pixmap csRGB (pil_width img) (pil_height img) samples)"
  using pixmap_from_bytes_loaded [OF assms] by simp

text \<open>
  Claim C5 at the concrete installation: an \<open>RGBA\<close> image and a palette image both end in
  \<open>AttributeError\<close>, an \<open>RGB\<close> image becomes a pixmap of its three samples.
\<close>

theorem pixmap_from_bytes_by_mode_witness:
  "image_open installation rgba_bytes =
     Some \<lparr>pil_mode = ''RGBA'', pil_width = 1, pil_height = 1, pil_data = Some [1, 2, 3, 4]\<rparr> \<and>
   ''RGBA'' \<noteq> ''RGB'' \<and>
   pixmap_from_bytes installation rgba_bytes = Inl (AttributeError ''csRGBA'') \<and>
   image_open installation gif_bytes =
     Some \<lparr>pil_mode = ''P'', pil_width = 1, pil_height = 1, pil_data = Some [5]\<rparr> \<and>
   ''P'' \<noteq> ''RGB'' \<and>
   pixmap_from_bytes installation gif_bytes = Inl (AttributeError ''csRGBA'') \<and>
   image_open installation png_bytes =
     Some \<lparr>pil_mode = ''RGB'', pil_width = 1, pil_height = 1, pil_data = Some [255, 0, 0]\<rparr> \<and>
   pixmap_from_bytes installation png_bytes =
     Inr \<lparr>pix_colorspace = csRGB, pix_width = 1, pix_height = 1, pix_samples = [255, 0, 0],
          pix_alpha = False\<rparr>"
proof -
  have r: "image_open installation rgba_bytes =
     Some \<lparr>pil_mode = ''RGBA'', pil_width = 1, pil_height = 1, pil_data = Some [1, 2, 3, 4]\<rparr>"
    by (simp add: installation_def rgba_bytes_def)
  have g: "image_open installation gif_bytes =
     Some \<lparr>pil_mode = ''P'', pil_width = 1, pil_height = 1, pil_data = Some [5]\<rparr>"
    by (simp add: installation_def gif_bytes_def)
  have p: "image_open installation png_bytes =
     Some \<lparr>pil_mode = ''RGB'', pil_width = 1, pil_height = 1, pil_data = Some [255, 0, 0]\<rparr>"
    by (simp add: installation_def png_bytes_def)
  show ?thesis
    using pixmap_from_bytes_by_mode [OF r, of "[1, 2, 3, 4]"]
      pixmap_from_bytes_by_mode [OF g, of "[5]"]
      pixmap_from_bytes_by_mode [OF p, of "[255, 0, 0]"] r g p
    by (simp add: Pixmap_def)
qed

text \<open>
  Claim C7, as stated, at the concrete installation: the distinct identifiers
  \<open>doc\<close> and \<open>./doc\<close> resolve to the same stored file, and the identifier
  \<open>/etc/secret\<close> resolves to the file \<open>/etc/secret.pdf\<close>, which is not under the store
  root \<open>/srv/storage\<close>.
\<close>

theorem document_path_aliases_and_escapes:
  "''./doc'' \<noteq> ''doc'' \<and>
   ensure_document storage stored_files ''doc'' =
     Inr \<lparr>anchor = ''/'', parts = [''srv'', ''storage'', ''doc.pdf'']\<rparr> \<and>
   ensure_document storage stored_files ''./doc'' =
     Inr \<lparr>anchor = ''/'', parts = [''srv'', ''storage'', ''doc.pdf'']\<rparr> \<and>
   ensure_document storage
     (Map.empty(\<lparr>anchor = ''/'', parts = [''etc'', ''secret.pdf'']\<rparr> \<mapsto> File pdf_bytes))
     ''/etc/secret'' =
     Inr \<lparr>anchor = ''/'', parts = [''etc'', ''secret.pdf'']\<rparr> \<and>
   \<not> prefix (parts storage) [''etc'', ''secret.pdf'']"
  by (simp add: ensure_document_def path_exists_def document_path_def truediv_def
      rel_parts_def parse_path_def splitroot_def storage_def stored_files_def)

text \<open>
  Claim C7, amended: for every identifier that does not contain the separator \<open>/\<close>
  (such as the hexadecimal identifiers that \<open>save_pdf\<close> generates) and whose path stays
  within the limits of the operating system (no component longer than 255 bytes, the
  path shorter than 4096 bytes), the storage location is the file named by the
  identifier followed by \<open>.pdf\<close> directly under the store root; the operation succeeds
  when something is stored at exactly that path and fails with \<open>NotFoundError\<close>
  otherwise; and two distinct identifiers without separator never resolve to the same
  path.
\<close>

theorem document_path_exact:
  assumes "CHR ''/'' \<notin> set doc_id"
    and "within_limits (document_path storage_root doc_id)"
  shows "document_path storage_root doc_id =
           \<lparr>anchor = anchor storage_root, parts = parts storage_root @ [doc_id @ ''.pdf'']\<rparr> \<and>
         ensure_document storage_root fs doc_id =
           (if fs (document_path storage_root doc_id) = None then Inl NotFoundError
            else Inr (document_path storage_root doc_id)) \<and>
         (CHR ''/'' \<notin> set other \<and> other \<noteq> doc_id \<longrightarrow>
            document_path storage_root other \<noteq> document_path storage_root doc_id)"
proof (intro conjI impI)
  show "document_path storage_root doc_id =
      \<lparr>anchor = anchor storage_root, parts = parts storage_root @ [doc_id @ ''.pdf'']\<rparr>"
    using assms(1) by (rule document_path_file_name)
  show "ensure_document storage_root fs doc_id =
      (if fs (document_path storage_root doc_id) = None then Inl NotFoundError
       else Inr (document_path storage_root doc_id))"
    using path_exists_within_limits [OF assms(2), of fs]
    by (auto simp add: ensure_document_def NotFoundError_def Let_def)
next
  assume "CHR ''/'' \<notin> set other \<and> other \<noteq> doc_id"
  then show "document_path storage_root other \<noteq> document_path storage_root doc_id"
    using assms(1) by (simp add: document_path_file_name)
qed

text \<open>
  Claim C7, amended, at the concrete installation: \<open>doc\<close> is found, its proper prefix
  \<open>do\<close> is not.
\<close>

theorem document_path_exact_witness:
  "CHR ''/'' \<notin> set ''doc'' \<and> within_limits (document_path storage ''doc'') \<and>
   document_path storage ''doc'' =
     \<lparr>anchor = ''/'', parts = [''srv'', ''storage'', ''doc.pdf'']\<rparr> \<and>
   ensure_document storage stored_files ''doc'' = Inr (document_path storage ''doc'') \<and>
   CHR ''/'' \<notin> set ''do'' \<and> within_limits (document_path storage ''do'') \<and>
   ensure_document storage stored_files ''do'' = Inl NotFoundError \<and>
   ''do'' \<noteq> ''doc'' \<and>
   document_path storage ''do'' \<noteq> document_path storage ''doc''"
proof -
  have h1: "CHR ''/'' \<notin> set ''doc''" by simp
  have h2: "CHR ''/'' \<notin> set ''do''" by simp
  have p2: "document_path storage ''do'' =
      \<lparr>anchor = ''/'', parts = [''srv'', ''storage'', ''do.pdf'']\<rparr>"
    using document_path_file_name [OF h2, of storage] by (simp add: storage_def)
  have l1: "within_limits (document_path storage ''doc'')"
    by (simp add: storage_doc_path within_limits_def fspath_def PATH_MAX_def NAME_MAX_def)
  have l2: "within_limits (document_path storage ''do'')"
    by (simp add: p2 within_limits_def fspath_def PATH_MAX_def NAME_MAX_def)
  have h3: "stored_files (document_path storage ''do'') = None"
    by (simp add: p2 stored_files_def)
  show ?thesis
    using document_path_exact [OF h1 l1, of stored_files "''do''"]
      document_path_exact [OF h2 l2, of stored_files "''doc''"] h3 stored_doc l1 l2
    by (simp add: storage_def)
qed

text \<open>
  Claim C8: in every list that \<open>list_page_images\<close> returns, the occurrence at position
  \<open>k\<close> carries index \<open>k\<close>; so for \<open>0 \<le> target_index < n\<close> the occurrence that
  \<open>replace_page_image\<close> finds by searching for the index is the one at position
  \<open>target_index\<close>: \<open>replace_page_image\<close> proceeds with \<open>images[target_index]\<close>, and it is
  the xref of that occurrence that the engine is asked to replace.
\<close>

theorem index_is_position:
  assumes "list_page_images e storage_root fs doc_id page_number = Inr (images, page_size)"
    and "fs (document_path storage_root doc_id) = Some (File stored)"
    and "0 \<le> target_index" and "target_index < int (length images)"
  shows "(\<forall>k < length images. index (images ! k) = int k) \<and>
         find (\<lambda>img. index img = target_index) images = Some (images ! nat target_index) \<and>
         replace_page_image e storage_root fs doc_id page_number target_index new_image_bytes =
           (case pixmap_from_bytes e new_image_bytes of
              Inl err \<Rightarrow> (Inl err, fs)
            | Inr pix \<Rightarrow>
                (case replace_image e stored (page_number - 1)
                        (xref (images ! nat target_index)) pix of
                   None \<Rightarrow> (Inl FitzError, fs)
                 | Some update \<Rightarrow>
                     (Inr (),
                      fs(document_path storage_root doc_id \<mapsto>
                           File (save stored update True)))))"
proof -
  have idx: "map index images = map int [0..<length images]"
    using list_page_images_index [OF assms(1)] .
  have pos: "\<forall>k < length images. index (images ! k) = int k"
    using index_nth [OF idx] by blast
  have f: "find (\<lambda>img. index img = target_index) images = Some (images ! nat target_index)"
    using find_index_nth [OF idx assms(3) assms(4)] .
  show ?thesis
    using pos f replace_page_image_found [OF assms(1) assms(2) f, of new_image_bytes]
    by simp
qed

text \<open>
  Claim C8 at the concrete installation: replacing index 1 on page 1 replaces the image
  of xref 8, the xref of the second occurrence.
\<close>

theorem index_is_position_witness:
  "list_page_images installation storage stored_files ''doc'' 1 =
     Inr ([occurrence_7, occurrence_8], 612, 792) \<and>
   stored_files (document_path storage ''doc'') = Some (File pdf_bytes) \<and>
   (0 :: int) \<le> 1 \<and> (1 :: int) < int (length [occurrence_7, occurrence_8]) \<and>
   index ([occurrence_7, occurrence_8] ! 1) = 1 \<and>
   find (\<lambda>img. index img = 1) [occurrence_7, occurrence_8] = Some occurrence_8 \<and>
   xref ([occurrence_7, occurrence_8] ! nat 1) = 8 \<and>
   replace_page_image installation storage stored_files ''doc'' 1 1 png_bytes =
     (Inr (),
      stored_files(document_path storage ''doc'' \<mapsto> File (pdf_bytes @ [8, 255, 0, 0])))"
proof -
  have h3: "(0 :: int) \<le> 1" by simp
  have h4: "(1 :: int) < int (length [occurrence_7, occurrence_8])" by simp
  have x: "xref ([occurrence_7, occurrence_8] ! nat 1) = 8" by (simp add: occurrence_8_def)
  have rp: "replace_image installation pdf_bytes 0 8
       \<lparr>pix_colorspace = csRGB, pix_width = 1, pix_height = 1, pix_samples = [255, 0, 0],
        pix_alpha = False\<rparr> = Some [8, 255, 0, 0]"
    by (simp add: installation_def)
  show ?thesis
    using index_is_position [OF listing_page_one stored_doc h3 h4, of png_bytes]
      listing_page_one stored_doc x rp
    by (simp add: png_pixmap save_def occurrence_indices)
qed

text \<open>
  Claim C9, as stated, at the concrete installation: the identifier of 252 characters is
  unknown, no file is stored for it, yet \<open>replace_page_image\<close> does not fail with
  \<open>NotFoundError\<close>: the file name of 256 bytes makes the existence check itself raise
  \<open>OSError\<close>.
\<close>

theorem replace_page_image_long_identifier:
  "stored_files (document_path storage long_id) = None \<and>
   replace_page_image installation storage stored_files long_id 1 0 png_bytes =
     (Inl OSError, stored_files) \<and>
   OSError \<noteq> NotFoundError"
  by (simp add: long_id_not_stored replace_page_image_def ensure_document_def long_id_exists
      NotFoundError_def)

text \<open>
  Claim C9, amended: \<open>replace_page_image\<close> checks its failure conditions in a fixed
  order. For an identifier at whose path nothing exists (the existence check answers
  false) it fails with \<open>NotFoundError\<close>, whatever the page number, the index and the
  replacement bytes; for a stored document that the engine opens it fails with
  \<open>InvalidPageError\<close> for a page number out of range, whatever the index and the bytes;
  and when the listing succeeds and no occurrence carries the index it fails with
  \<open>ImageIndexNotFoundError\<close>, whatever the bytes, decodable or not. The file system is
  unchanged in each case.
\<close>

theorem replace_page_image_precedence:
  "(path_exists fs (document_path storage_root doc_id) = Inr False \<longrightarrow>
      replace_page_image e storage_root fs doc_id page_number image_index new_image_bytes =
        (Inl NotFoundError, fs)) \<and>
   (fs (document_path storage_root doc_id) = Some (File stored) \<and>
    fitz_open e stored = Some doc \<and>
    \<not> (1 \<le> page_number \<and> page_number \<le> page_count doc) \<longrightarrow>
      replace_page_image e storage_root fs doc_id page_number image_index new_image_bytes =
        (Inl InvalidPageError, fs)) \<and>
   (list_page_images e storage_root fs doc_id page_number = Inr (images, page_size) \<and>
    image_index \<notin> index ` set images \<longrightarrow>
      replace_page_image e storage_root fs doc_id page_number image_index new_image_bytes =
        (Inl ImageIndexNotFoundError, fs))"
proof (intro conjI impI)
  assume "path_exists fs (document_path storage_root doc_id) = Inr False"
  then show "replace_page_image e storage_root fs doc_id page_number image_index new_image_bytes =
      (Inl NotFoundError, fs)"
    by (simp add: replace_page_image_def ensure_document_def NotFoundError_def)
next
  assume a: "fs (document_path storage_root doc_id) = Some (File stored) \<and>
    fitz_open e stored = Some doc \<and> \<not> (1 \<le> page_number \<and> page_number \<le> page_count doc)"
  then have "list_page_images e storage_root fs doc_id page_number =
      Inl (ValueError ''Invalid page number'')"
    using list_page_images_invalid_page [where fs = fs and storage_root = storage_root
        and doc_id = doc_id and stored = stored and e = e and doc = doc
        and page_number = page_number]
    by blast
  moreover have "ensure_document storage_root fs doc_id =
      Inr (document_path storage_root doc_id)"
    using a ensure_document_stored by blast
  ultimately show "replace_page_image e storage_root fs doc_id page_number image_index
      new_image_bytes = (Inl InvalidPageError, fs)"
    by (simp add: replace_page_image_def InvalidPageError_def)
next
  assume "list_page_images e storage_root fs doc_id page_number = Inr (images, page_size) \<and>
    image_index \<notin> index ` set images"
  then show "replace_page_image e storage_root fs doc_id page_number image_index new_image_bytes =
      (Inl ImageIndexNotFoundError, fs)"
    using replace_page_image_index_missing by (simp add: ImageIndexNotFoundError_def)
qed

text \<open>
  Claim C9, amended, at the concrete installation, each time with an index that no
  occurrence carries and with replacement bytes that the decoder rejects.
\<close>

theorem replace_page_image_precedence_witness:
  "path_exists stored_files (document_path storage ''nope'') = Inr False \<and>
   replace_page_image installation storage stored_files ''nope'' 7 9 text_bytes =
     (Inl NotFoundError, stored_files) \<and>
   stored_files (document_path storage ''doc'') = Some (File pdf_bytes) \<and>
   fitz_open installation pdf_bytes = Some two_pages \<and>
   \<not> (1 \<le> (3 :: int) \<and> 3 \<le> page_count two_pages) \<and>
   replace_page_image installation storage stored_files ''doc'' 3 9 text_bytes =
     (Inl InvalidPageError, stored_files) \<and>
   list_page_images installation storage stored_files ''doc'' 1 =
     Inr ([occurrence_7, occurrence_8], 612, 792) \<and>
   9 \<notin> index ` set [occurrence_7, occurrence_8] \<and>
   \<not> decodable installation text_bytes \<and>
   replace_page_image installation storage stored_files ''doc'' 1 9 text_bytes =
     (Inl ImageIndexNotFoundError, stored_files)"
proof -
  have p: "document_path storage ''nope'' =
      \<lparr>anchor = ''/'', parts = [''srv'', ''storage'', ''nope.pdf'']\<rparr>"
    by (simp add: document_path_def truediv_def rel_parts_def storage_def)
  have l: "within_limits (document_path storage ''nope'')"
    by (simp add: p within_limits_def fspath_def PATH_MAX_def NAME_MAX_def)
  have n: "stored_files (document_path storage ''nope'') = None"
    by (simp add: p stored_files_def)
  have h1: "path_exists stored_files (document_path storage ''nope'') = Inr False"
    using path_exists_within_limits [OF l, of stored_files] n by simp
  have h2: "\<not> decodable installation text_bytes"
    by (simp add: decodable_def installation_def text_bytes_def)
  show ?thesis
    using replace_page_image_precedence [where fs = stored_files and storage_root = storage
        and doc_id = "''nope''" and e = installation and page_number = 7 and image_index = 9
        and new_image_bytes = text_bytes]
      replace_page_image_precedence [where fs = stored_files and storage_root = storage
        and doc_id = "''doc''" and e = installation and page_number = 3 and image_index = 9
        and new_image_bytes = text_bytes and stored = pdf_bytes and doc = two_pages]
      replace_page_image_precedence [where fs = stored_files and storage_root = storage
        and doc_id = "''doc''" and e = installation and page_number = 1 and image_index = 9
        and new_image_bytes = text_bytes and page_size = "(612, 792)"
        and images = "[occurrence_7, occurrence_8]"]
      h1 h2 stored_doc open_pdf_bytes page_count_two_pages listing_page_one
    by (simp add: occurrence_indices)
qed

text \<open>
  Claim C10: when the engine cannot open the uploaded bytes, \<open>save_pdf\<close> fails, so no
  identifier is returned, and the bytes are stored under the fresh identifier nonetheless:
  the file is written before the bytes are parsed.
\<close>

theorem save_pdf_writes_before_parsing:
  assumes "fitz_open e file_bytes = None"
  shows "fst (save_pdf e storage_root fs doc_id file_bytes) = Inl FitzError \<and>
         snd (save_pdf e storage_root fs doc_id file_bytes)
           (document_path storage_root doc_id) = Some (File file_bytes)"
  using assms by (simp add: save_pdf_def Let_def)

text \<open>
  Claim C10 at the concrete installation: two bytes of text are uploaded.
\<close>

theorem save_pdf_writes_before_parsing_witness:
  "fitz_open installation text_bytes = None \<and>
   fst (save_pdf installation storage Map.empty ''0123456789abcdef0123456789abcdef'' text_bytes) =
     Inl FitzError \<and>
   snd (save_pdf installation storage Map.empty ''0123456789abcdef0123456789abcdef'' text_bytes)
     (document_path storage ''0123456789abcdef0123456789abcdef'') = Some (File text_bytes)"
proof -
  have h: "fitz_open installation text_bytes = None"
    by (simp add: installation_def text_bytes_def)
  show ?thesis
    using save_pdf_writes_before_parsing [OF h, of storage Map.empty
        "''0123456789abcdef0123456789abcdef''"] h
    by simp
qed

end
